theory Spec2Isabelle
  imports Main
begin

section \<open>JavaScript values used by the components\<close>

text \<open>
  A JavaScript string is a sequence of code units. The model uses HOL strings, whose
  characters are read as the code units 0 to 255 (Basic Latin and Latin-1); strings with
  larger code units are outside the model.

  An error object thrown by the capture service or rejected by the wallet provider is an
  object with an optional numeric \<open>code\<close> and an optional \<open>message\<close>; a field that is
  absent (or not of the expected type) is \<open>None\<close>.
\<close>

record js_error =
  err_code :: "int option"
  err_message :: "string option"

text \<open>\<open>x || d\<close> on an optional string: \<open>undefined\<close> and the empty string are falsy.\<close>

definition or_default :: "string option \<Rightarrow> string \<Rightarrow> string" where
  "or_default x d = (case x of None \<Rightarrow> d | Some s \<Rightarrow> if s = [] then d else s)"

text \<open>\<open>String.prototype.includes\<close>: the pattern occurs at some position.\<close>

fun includes_str :: "string \<Rightarrow> string \<Rightarrow> bool" where
  "includes_str [] p = (p = [])"
| "includes_str (c # cs) p = (take (length p) (c # cs) = p \<or> includes_str cs p)"

text \<open>
  \<open>String.prototype.toLowerCase\<close> on the code units below 256: the letters \<open>A\<close> to \<open>Z\<close>
  and the Latin-1 capitals \<open>U+00C0\<close> to \<open>U+00DE\<close> (without the multiplication sign
  \<open>U+00D7\<close>) move up by 32; every other code unit stays.
\<close>

definition upper_units :: string where
  "upper_units = ''ABCDEFGHIJKLMNOPQRSTUVWXYZ'' @
     [CHR 0xC0, CHR 0xC1, CHR 0xC2, CHR 0xC3, CHR 0xC4, CHR 0xC5, CHR 0xC6, CHR 0xC7,
      CHR 0xC8, CHR 0xC9, CHR 0xCA, CHR 0xCB, CHR 0xCC, CHR 0xCD, CHR 0xCE, CHR 0xCF,
      CHR 0xD0, CHR 0xD1, CHR 0xD2, CHR 0xD3, CHR 0xD4, CHR 0xD5, CHR 0xD6,
      CHR 0xD8, CHR 0xD9, CHR 0xDA, CHR 0xDB, CHR 0xDC, CHR 0xDD, CHR 0xDE]"

definition lower_units :: string where
  "lower_units = ''abcdefghijklmnopqrstuvwxyz'' @
     [CHR 0xE0, CHR 0xE1, CHR 0xE2, CHR 0xE3, CHR 0xE4, CHR 0xE5, CHR 0xE6, CHR 0xE7,
      CHR 0xE8, CHR 0xE9, CHR 0xEA, CHR 0xEB, CHR 0xEC, CHR 0xED, CHR 0xEE, CHR 0xEF,
      CHR 0xF0, CHR 0xF1, CHR 0xF2, CHR 0xF3, CHR 0xF4, CHR 0xF5, CHR 0xF6,
      CHR 0xF8, CHR 0xF9, CHR 0xFA, CHR 0xFB, CHR 0xFC, CHR 0xFD, CHR 0xFE]"

definition toLowerCase_unit :: "char \<Rightarrow> char" where
  "toLowerCase_unit c =
     (case map_of (zip upper_units lower_units) c of None \<Rightarrow> c | Some l \<Rightarrow> l)"

definition toLowerCase :: "string \<Rightarrow> string" where
  "toLowerCase s = map toLowerCase_unit s"

text \<open>
  A JavaScript number as \<open>parseInt\<close> produces it: \<open>NaN\<close>, an integer that a double holds
  exactly (magnitude at most \<open>2^53 = 9007199254740992\<close>), or the double nearest to a
  larger integer, which the model names by that integer without computing the rounding.
\<close>

datatype js_number = NaN | Exact int | Rounded int

definition is_js_whitespace :: "char \<Rightarrow> bool" where
  "is_js_whitespace c =
     (let n = (of_char c :: nat)
      in n = 9 \<or> n = 10 \<or> n = 11 \<or> n = 12 \<or> n = 13 \<or> n = 32 \<or> n = 160)"

definition hex_digit_value :: "char \<Rightarrow> nat option" where
  "hex_digit_value c =
     (let n = (of_char c :: nat)
      in if 48 \<le> n \<and> n \<le> 57 then Some (n - 48)
         else if 97 \<le> n \<and> n \<le> 102 then Some (n - 87)
         else if 65 \<le> n \<and> n \<le> 70 then Some (n - 55)
         else None)"

fun strip_sign :: "string \<Rightarrow> bool \<times> string" where
  "strip_sign [] = (False, [])"
| "strip_sign (c # cs) =
     (if c = CHR ''-'' then (True, cs)
      else if c = CHR ''+'' then (False, cs)
      else (False, c # cs))"

fun strip_0x :: "string \<Rightarrow> string" where
  "strip_0x (a # b # cs) =
     (if a = CHR ''0'' \<and> (b = CHR ''x'' \<or> b = CHR ''X'') then cs else a # b # cs)"
| "strip_0x cs = cs"

text \<open>The digits of the longest prefix made of radix-16 digits.\<close>

fun radix_digits :: "string \<Rightarrow> nat list" where
  "radix_digits [] = []"
| "radix_digits (c # cs) =
     (case hex_digit_value c of None \<Rightarrow> [] | Some d \<Rightarrow> d # radix_digits cs)"

definition math_int :: "nat list \<Rightarrow> nat" where
  "math_int ds = foldl (\<lambda>acc d. 16 * acc + d) 0 ds"

text \<open>
  \<open>parseInt(inputString, 16)\<close>: leading white space is dropped, then one sign, then one
  \<open>0x\<close> or \<open>0X\<close>; the longest run of hexadecimal digits that follows is the number, and
  \<open>NaN\<close> results when that run is empty.
\<close>

definition parseInt16 :: "string \<Rightarrow> js_number" where
  "parseInt16 inputString =
     (let S = dropWhile is_js_whitespace inputString;
          (neg, S1) = strip_sign S;
          Z = radix_digits (strip_0x S1)
      in if Z = [] then NaN
         else let m = math_int Z;
                  v = (if neg then - int m else int m)
              in if m \<le> 9007199254740992 then Exact v else Rounded v)"

text \<open>Decimal rendering of an integer, as \<open>Number.prototype.toString\<close> gives it.\<close>

definition digit_char :: "nat \<Rightarrow> char" where
  "digit_char d = ''0123456789'' ! d"

function nat_to_decimal :: "nat \<Rightarrow> string" where
  "nat_to_decimal n =
     (if n < 10 then [digit_char n]
      else nat_to_decimal (n div 10) @ [digit_char (n mod 10)])"
  by pat_completeness auto
termination
  by (relation "measure (\<lambda>n. n)") auto

definition int_to_decimal :: "int \<Rightarrow> string" where
  "int_to_decimal v =
     (if v < 0 then CHR ''-'' # nat_to_decimal (nat (- v)) else nat_to_decimal (nat v))"

text \<open>
  What a property read or a template literal of the components evaluates to: a string,
  an object that is not a string (a function or a prototype object), or the string
  \<open>Chain \<close> followed by the rendering of a rounded double, which is not computed.
\<close>

datatype js_value = JString string | JObject | JChainOfRounded int

fun truthy :: "js_value \<Rightarrow> bool" where
  "truthy (JString s) = (s \<noteq> [])"
| "truthy JObject = True"
| "truthy (JChainOfRounded v) = True"


section \<open>BlockchainSelector\<close>

record NetworkInfo =
  chainId :: string
  chainName :: js_value

record selector_state =
  currentNetwork :: "NetworkInfo option"
  isLoading :: bool
  error :: "string option"

subsection \<open>getNetworkName\<close>

definition networkNames :: "(string \<times> string) list" where
  "networkNames =
     [(''0x1'', ''Ethereum Mainnet''),
      (''0x5'', ''Goerli Testnet''),
      (''0xaa36a7'', ''Sepolia Testnet''),
      (''0x89'', ''Polygon Mainnet''),
      (''0x13881'', ''Mumbai Testnet''),
      (''0xa'', ''Optimism''),
      (''0xa4b1'', ''Arbitrum One''),
      (''0x279f'', ''Monad Testnet'')]"

text \<open>
  \<open>networkNames\<close> is an object literal, so a property read that finds no own property
  continues in \<open>Object.prototype\<close>, whose properties are functions or objects.
\<close>

definition Object_prototype_names :: "string list" where
  "Object_prototype_names =
     [''constructor'', ''__defineGetter__'', ''__defineSetter__'', ''hasOwnProperty'',
      ''__lookupGetter__'', ''__lookupSetter__'', ''isPrototypeOf'',
      ''propertyIsEnumerable'', ''toString'', ''valueOf'', ''__proto__'',
      ''toLocaleString'']"

definition networkNames_get :: "string \<Rightarrow> js_value option" where
  "networkNames_get k =
     (case map_of networkNames k of
        Some v \<Rightarrow> Some (JString v)
      | None \<Rightarrow> if k \<in> set Object_prototype_names then Some JObject else None)"

fun chain_template :: "js_number \<Rightarrow> js_value" where
  "chain_template NaN = JString ''Chain NaN''"
| "chain_template (Exact v) = JString (''Chain '' @ int_to_decimal v)"
| "chain_template (Rounded v) = JChainOfRounded v"

text \<open>The value the promise of \<open>getNetworkName\<close> resolves to; nothing in it can throw.\<close>

definition getNetworkName :: "string \<Rightarrow> js_value" where
  "getNetworkName cid =
     (case networkNames_get (toLowerCase cid) of
        None \<Rightarrow> chain_template (parseInt16 cid)
      | Some v \<Rightarrow> if truthy v then v else chain_template (parseInt16 cid))"

subsection \<open>The wallet provider\<close>

text \<open>
  The requests the component sends to \<open>window.ethereum\<close>. The provider is outside the
  component: it is a parameter that settles each request, by fulfilling the promise or by
  rejecting it with an error object. A provider that is not injected makes the request
  expression throw inside the same \<open>try\<close> block, which the handlers treat like a rejection
  whose error carries no code.
\<close>

datatype rpc_call =
    eth_requestAccounts
  | eth_chainId
  | wallet_requestPermissions
  | wallet_switchEthereumChain string
  | wallet_addEthereumChain string

datatype rpc_outcome = Fulfils | Rejects js_error

type_synonym provider = "rpc_call \<Rightarrow> rpc_outcome"

datatype selector_effect =
    Confirm_dialog
  | Request rpc_call
  | Console_warn
  | Console_error

subsection \<open>handleSwitchNetwork\<close>

definition switch_error_message :: "js_error \<Rightarrow> string" where
  "switch_error_message err =
     (if err_code err = Some 4001 then ''Network switch rejected''
      else ''Failed to switch network'')"

text \<open>\<open>currentNetwork?.chainId || '0x1'\<close>\<close>

definition switch_target :: "selector_state \<Rightarrow> string" where
  "switch_target s =
     (case currentNetwork s of
        None \<Rightarrow> ''0x1''
      | Some n \<Rightarrow> if chainId n = [] then ''0x1'' else chainId n)"

text \<open>
  The handler run to its end: the effects in order and the state after \<open>finally\<close>.
\<close>

definition handleSwitchNetwork ::
  "provider \<Rightarrow> selector_state \<Rightarrow> selector_effect list \<times> selector_state" where
  "handleSwitchNetwork request s =
     (let s1 = s\<lparr>isLoading := True, error := None\<rparr>;
          perm = wallet_requestPermissions;
          switch = wallet_switchEthereumChain (switch_target s)
      in case request perm of
           Rejects err \<Rightarrow>
             ([Request perm, Console_error],
              s1\<lparr>error := Some (switch_error_message err), isLoading := False\<rparr>)
         | Fulfils \<Rightarrow>
             (case request switch of
                Rejects err \<Rightarrow>
                  ([Request perm, Request switch, Console_error],
                   s1\<lparr>error := Some (switch_error_message err), isLoading := False\<rparr>)
              | Fulfils \<Rightarrow>
                  ([Request perm, Request switch], s1\<lparr>isLoading := False\<rparr>)))"

subsection \<open>handleAddMonadTestnet\<close>

text \<open>
  The message chosen in the \<open>catch\<close> block. With none of the three codes the block reads
  \<open>err.message.includes\<close>; on an error without a message that read throws, which is the
  result \<open>None\<close>.
\<close>

definition add_error_message :: "js_error \<Rightarrow> string option" where
  "add_error_message err =
     (if err_code err = Some 4001 then Some ''User rejected the request''
      else if err_code err = Some (- 32602) then Some ''Invalid parameters''
      else if err_code err = Some (- 32603) then Some ''Internal error - check RPC URL''
      else case err_message err of
             None \<Rightarrow> None
           | Some m \<Rightarrow>
               if includes_str m ''chain ID'' then Some ''Invalid chain ID''
               else Some ''Failed to add network'')"

definition monad_chain_id :: string where
  "monad_chain_id = ''0x279F''"

text \<open>
  The handler run to its end, given the answer to the confirmation dialog: the effects
  in order, the state after \<open>finally\<close>, and whether an exception leaves the handler.
\<close>

definition handleAddMonadTestnet ::
  "bool \<Rightarrow> provider \<Rightarrow> selector_state \<Rightarrow> selector_effect list \<times> selector_state \<times> bool" where
  "handleAddMonadTestnet confirmed request s =
     (let s1 = s\<lparr>isLoading := True, error := None\<rparr>;
          add = wallet_addEthereumChain monad_chain_id;
          switch = wallet_switchEthereumChain monad_chain_id
      in if \<not> confirmed then ([Confirm_dialog], s1\<lparr>isLoading := False\<rparr>, False)
         else case request add of
                Fulfils \<Rightarrow>
                  (case request switch of
                     Fulfils \<Rightarrow>
                       ([Confirm_dialog, Request add, Request switch],
                        s1\<lparr>isLoading := False\<rparr>, False)
                   | Rejects switchError \<Rightarrow>
                       ([Confirm_dialog, Request add, Request switch, Console_warn],
                        s1\<lparr>isLoading := False\<rparr>, False))
              | Rejects err \<Rightarrow>
                  (case add_error_message err of
                     None \<Rightarrow>
                       ([Confirm_dialog, Request add, Console_error],
                        s1\<lparr>isLoading := False\<rparr>, True)
                   | Some errorMessage \<Rightarrow>
                       ([Confirm_dialog, Request add, Console_error],
                        s1\<lparr>error := Some (errorMessage @
                              ''. Please check the network details and try again.''),
                           isLoading := False\<rparr>, False)))"


section \<open>Achievements and the capture service\<close>

datatype verificationStatus = pending | verified | rejected

text \<open>
  The interface \<open>Achievement\<close>; the field \<open>id\<close> is \<open>ach_id\<close> here. \<open>rewardAmount\<close> is only
  displayed.
\<close>

record Achievement =
  ach_id :: string
  title :: string
  description :: string
  rewardAmount :: int
  completed :: bool
  timestamp :: "string option"
  verificationStatus :: verificationStatus

text \<open>
  The hook \<open>useAchievementVerification\<close> is not part of the modelled source. Its
  \<open>verifyAchievement\<close> is the call into the capture service: the promise it returns
  resolves to a boolean or rejects with an error, and that outcome is a parameter. The
  flag \<open>verifying\<close> that the hook reports at each render is a parameter as well.
\<close>

datatype verify_outcome = Resolves bool | Throws js_error

datatype fetch_outcome = Fetch_ok | Fetch_failed

datatype toast_variant = default_variant | destructive

text \<open>
  What a component does to its surroundings: calls into the hook, the callback to the
  owner of the achievements, toasts and console output. The callback, the toast and
  \<open>resetVerificationState\<close> are taken to return normally.
\<close>

datatype effect =
    ResetVerificationState
  | VerifyAchievement Achievement "string option"
  | FetchScreenpipeData
  | OnVerificationComplete string bool
  | Card_onVerificationComplete bool
  | Toast string string toast_variant
  | Console_error_log

text \<open>A wallet address is truthy when it is a string that is not empty.\<close>

fun wallet_present :: "string option \<Rightarrow> bool" where
  "wallet_present None = False"
| "wallet_present (Some w) = (w \<noteq> [])"


section \<open>ScreenpipeVerificationPanel\<close>

datatype connection = connecting | connected | disconnected

record verification_result =
  success :: bool
  message :: string
  achievementId :: "string option"

record panel_props =
  achievements :: "Achievement list"
  walletAddress :: "string option"
  has_onVerificationComplete :: bool

record panel_state =
  selectedAchievement :: "Achievement option"
  connectionStatus :: connection
  lastVerificationResult :: "verification_result option"

text \<open>The three \<open>useState\<close> initial values.\<close>

definition panel_init :: panel_state where
  "panel_init =
     \<lparr>selectedAchievement = None, connectionStatus = connecting,
      lastVerificationResult = None\<rparr>"

definition pendingAchievements :: "panel_props \<Rightarrow> Achievement list" where
  "pendingAchievements props =
     filter (\<lambda>a. completed a \<and> verificationStatus a = pending) (achievements props)"

definition verifiedAchievements :: "panel_props \<Rightarrow> Achievement list" where
  "verifiedAchievements props =
     filter (\<lambda>a. verificationStatus a = verified) (achievements props)"

subsection \<open>verifySelectedAchievement\<close>

text \<open>
  The function awaits once. \<open>verify_begin\<close> is the part up to the call of
  \<open>verifyAchievement\<close>: \<open>None\<close> is the early return of the guard, otherwise the effects,
  the state and the achievement that the continuation keeps. \<open>verify_settle\<close> is the
  continuation, run on the state of the moment when the promise settles.
\<close>

definition verify_begin ::
  "panel_props \<Rightarrow> panel_state \<Rightarrow> (effect list \<times> panel_state \<times> Achievement) option" where
  "verify_begin props s =
     (case selectedAchievement s of
        None \<Rightarrow> None
      | Some a \<Rightarrow>
          if \<not> wallet_present (walletAddress props) then None
          else Some ([ResetVerificationState, VerifyAchievement a (walletAddress props)],
                     s\<lparr>lastVerificationResult := None\<rparr>, a))"

definition verify_result :: "Achievement \<Rightarrow> verify_outcome \<Rightarrow> verification_result" where
  "verify_result a outcome =
     (case outcome of
        Resolves v \<Rightarrow>
          if v then
            \<lparr>success = True, message = ''Achievement verified successfully!'',
             achievementId = Some (ach_id a)\<rparr>
          else
            \<lparr>success = False,
             message = ''Could not verify achievement. Make sure the content is visible on your screen.'',
             achievementId = Some (ach_id a)\<rparr>
      | Throws e \<Rightarrow>
          \<lparr>success = False,
           message = or_default (err_message e) ''Verification failed due to an unexpected error'',
           achievementId = None\<rparr>)"

definition verify_effects :: "bool \<Rightarrow> Achievement \<Rightarrow> verify_outcome \<Rightarrow> effect list" where
  "verify_effects has_callback a outcome =
     (case outcome of
        Resolves v \<Rightarrow>
          if v then
            (if has_callback then [OnVerificationComplete (ach_id a) True] else []) @
            [Toast ''Verification Successful'' (title a @ '' has been verified'') default_variant]
          else []
      | Throws e \<Rightarrow>
          [Console_error_log,
           Toast ''Verification Failed''
             (or_default (err_message e) ''An error occurred during verification'') destructive])"

definition verify_settle ::
  "bool \<Rightarrow> Achievement \<Rightarrow> verify_outcome \<Rightarrow> panel_state \<Rightarrow> effect list \<times> panel_state" where
  "verify_settle has_callback a outcome s =
     (verify_effects has_callback a outcome,
      s\<lparr>lastVerificationResult := Some (verify_result a outcome)\<rparr>)"

text \<open>One call run to its end, with nothing else happening while it awaits.\<close>

definition verifySelectedAchievement ::
  "panel_props \<Rightarrow> verify_outcome \<Rightarrow> panel_state \<Rightarrow> effect list \<times> panel_state" where
  "verifySelectedAchievement props outcome s =
     (case verify_begin props s of
        None \<Rightarrow> ([], s)
      | Some (effs, s1, a) \<Rightarrow>
          (let (effs2, s2) = verify_settle (has_onVerificationComplete props) a outcome s1
           in (effs @ effs2, s2)))"

subsection \<open>The connection\<close>

text \<open>
  \<open>initializeScreenpipe\<close>, which the effect calls once and the interval calls again,
  starts a fetch and leaves the status as it is until the fetch settles. The Refresh
  button sets the status before it starts its fetch.
\<close>

definition initializeScreenpipe_begin :: "panel_state \<Rightarrow> effect list \<times> panel_state" where
  "initializeScreenpipe_begin s = ([FetchScreenpipeData], s)"

definition initializeScreenpipe_settle ::
  "fetch_outcome \<Rightarrow> panel_state \<Rightarrow> effect list \<times> panel_state" where
  "initializeScreenpipe_settle outcome s =
     (case outcome of
        Fetch_ok \<Rightarrow> ([], s\<lparr>connectionStatus := connected\<rparr>)
      | Fetch_failed \<Rightarrow> ([Console_error_log], s\<lparr>connectionStatus := disconnected\<rparr>))"

definition refresh_begin :: "panel_state \<Rightarrow> effect list \<times> panel_state" where
  "refresh_begin s = ([FetchScreenpipeData], s\<lparr>connectionStatus := connecting\<rparr>)"

definition refresh_settle :: "fetch_outcome \<Rightarrow> panel_state \<Rightarrow> effect list \<times> panel_state" where
  "refresh_settle outcome s =
     (case outcome of
        Fetch_ok \<Rightarrow> ([], s\<lparr>connectionStatus := connected\<rparr>)
      | Fetch_failed \<Rightarrow> ([], s\<lparr>connectionStatus := disconnected\<rparr>))"

subsection \<open>What the rendered panel lets the user do\<close>

text \<open>
  A card is rendered for each pending achievement; the Verify button is rendered with a
  selection and a connected status and is disabled without a wallet address or while
  verifying; the Try Again button is rendered in the alert of a failed result and is
  disabled while verifying; the Refresh button is disabled while verifying.
\<close>

definition verify_button_enabled :: "panel_props \<Rightarrow> bool \<Rightarrow> panel_state \<Rightarrow> bool" where
  "verify_button_enabled props verifying s =
     (selectedAchievement s \<noteq> None \<and> connectionStatus s = connected \<and>
      \<not> (\<not> wallet_present (walletAddress props) \<or> verifying))"

definition try_again_enabled :: "bool \<Rightarrow> panel_state \<Rightarrow> bool" where
  "try_again_enabled verifying s =
     (case lastVerificationResult s of
        None \<Rightarrow> False
      | Some r \<Rightarrow> selectedAchievement s \<noteq> None \<and> \<not> success r \<and> \<not> verifying)"

datatype panel_event =
    Mounts
  | Timer_fires
  | Init_fetch_settles fetch_outcome
  | Click_refresh
  | Refresh_fetch_settles fetch_outcome
  | Click_card Achievement
  | Click_verify verify_outcome
  | Click_try_again verify_outcome

text \<open>
  One event on the rendered panel, under the props and the \<open>verifying\<close> flag of that
  render. An event on a control that is not rendered or is disabled changes nothing.
\<close>

fun panel_step ::
  "panel_props \<Rightarrow> bool \<Rightarrow> panel_event \<Rightarrow> panel_state \<Rightarrow> effect list \<times> panel_state" where
  "panel_step props verifying Mounts s = initializeScreenpipe_begin s"
| "panel_step props verifying Timer_fires s = initializeScreenpipe_begin s"
| "panel_step props verifying (Init_fetch_settles outcome) s =
     initializeScreenpipe_settle outcome s"
| "panel_step props verifying Click_refresh s =
     (if verifying then ([], s) else refresh_begin s)"
| "panel_step props verifying (Refresh_fetch_settles outcome) s = refresh_settle outcome s"
| "panel_step props verifying (Click_card a) s =
     (if a \<in> set (pendingAchievements props)
      then ([], s\<lparr>selectedAchievement := Some a, lastVerificationResult := None\<rparr>)
      else ([], s))"
| "panel_step props verifying (Click_verify outcome) s =
     (if verify_button_enabled props verifying s
      then verifySelectedAchievement props outcome s else ([], s))"
| "panel_step props verifying (Click_try_again outcome) s =
     (if try_again_enabled verifying s
      then verifySelectedAchievement props outcome s else ([], s))"

text \<open>A history of events, each with the props and the flag of its render.\<close>

fun panel_run ::
  "(panel_props \<times> bool \<times> panel_event) list \<Rightarrow> panel_state \<Rightarrow> effect list \<times> panel_state" where
  "panel_run [] s = ([], s)"
| "panel_run ((props, verifying, ev) # rest) s =
     (let (effs, s1) = panel_step props verifying ev s;
          (effs2, s2) = panel_run rest s1
      in (effs @ effs2, s2))"


section \<open>AchievementCard\<close>

record card_props =
  achievement :: Achievement
  card_walletAddress :: "string option"
  card_has_onVerificationComplete :: bool

text \<open>
  \<open>handleVerify\<close> has no \<open>try\<close>: the effects, and the error that leaves the handler when
  the promise rejects.
\<close>

definition handleVerify :: "card_props \<Rightarrow> verify_outcome \<Rightarrow> effect list \<times> js_error option" where
  "handleVerify props outcome =
     (case outcome of
        Resolves v \<Rightarrow>
          (VerifyAchievement (achievement props) (card_walletAddress props) #
           (if card_has_onVerificationComplete props then [Card_onVerificationComplete v] else []),
           None)
      | Throws e \<Rightarrow>
          ([VerifyAchievement (achievement props) (card_walletAddress props)], Some e))"




section \<open>The interval of the panel\<close>

text \<open>
  The timers of the JavaScript runtime, on a clock that counts milliseconds: each
  interval has a handle, the callback it calls, a delay and the time when it is next due.
  The runtime is idealised: an interval fires exactly when it is due. The only callback
  the panel hands to \<open>setInterval\<close> is \<open>initializeScreenpipe\<close>.
\<close>

datatype timer_callback = InitializeScreenpipe

record interval =
  iv_handle :: nat
  iv_callback :: timer_callback
  iv_delay :: nat
  iv_due :: nat

record runtime =
  clock :: nat
  next_handle :: nat
  intervals :: "interval list"

definition setInterval :: "timer_callback \<Rightarrow> nat \<Rightarrow> runtime \<Rightarrow> nat \<times> runtime" where
  "setInterval cb ms r =
     (next_handle r,
      r\<lparr>next_handle := Suc (next_handle r),
        intervals := intervals r @
          [\<lparr>iv_handle = next_handle r, iv_callback = cb, iv_delay = ms,
            iv_due = clock r + ms\<rparr>]\<rparr>)"

definition clearInterval :: "nat \<Rightarrow> runtime \<Rightarrow> runtime" where
  "clearInterval h r = r\<lparr>intervals := filter (\<lambda>i. iv_handle i \<noteq> h) (intervals r)\<rparr>"

text \<open>How often an interval fires up to and including the time \<open>until\<close>.\<close>

definition firings :: "nat \<Rightarrow> interval \<Rightarrow> nat" where
  "firings until i =
     (if iv_delay i = 0 \<or> until < iv_due i then 0
      else (until - iv_due i) div iv_delay i + 1)"

text \<open>
  The clock moves on by \<open>d\<close> milliseconds: the time and the callback of every firing,
  interval by interval, and the runtime afterwards.
\<close>

definition advance :: "nat \<Rightarrow> runtime \<Rightarrow> (nat \<times> timer_callback) list \<times> runtime" where
  "advance d r =
     (let until = clock r + d
      in (concat (map (\<lambda>i. map (\<lambda>k. (iv_due i + k * iv_delay i, iv_callback i))
                               [0..<firings until i])
                  (intervals r)),
          r\<lparr>clock := until,
            intervals := map (\<lambda>i. i\<lparr>iv_due := iv_due i + firings until i * iv_delay i\<rparr>)
                         (intervals r)\<rparr>))"

text \<open>
  What a firing does: it calls its callback on the state of the panel. The effects are
  paired with the time of the firing.
\<close>

fun run_callback :: "timer_callback \<Rightarrow> panel_state \<Rightarrow> effect list \<times> panel_state" where
  "run_callback InitializeScreenpipe s = initializeScreenpipe_begin s"

fun run_fired ::
  "(nat \<times> timer_callback) list \<Rightarrow> panel_state \<Rightarrow> (nat \<times> effect) list \<times> panel_state" where
  "run_fired [] s = ([], s)"
| "run_fired ((t, cb) # rest) s =
     (let (effs, s1) = run_callback cb s;
          (more, s2) = run_fired rest s1
      in (map (Pair t) effs @ more, s2))"

text \<open>
  The body of the effect calls \<open>initializeScreenpipe\<close> once, sets the interval that calls
  it again every 30000 ms, and returns the cleanup, which clears that interval. The result
  is the effects of the call, the handle that the cleanup holds, the runtime and the state
  of the panel.
\<close>

definition effect_run ::
  "runtime \<Rightarrow> panel_state \<Rightarrow> effect list \<times> nat \<times> runtime \<times> panel_state" where
  "effect_run r s =
     (let (effs, s1) = initializeScreenpipe_begin s;
          (interval, r1) = setInterval InitializeScreenpipe 30000 r
      in (effs, interval, r1, s1))"

definition effect_cleanup :: "nat \<Rightarrow> runtime \<Rightarrow> runtime" where
  "effect_cleanup interval r = clearInterval interval r"

text \<open>
  The life of one panel, as React drives the effect: it runs on mount, is cleaned up and run
  again when its dependency \<open>fetchScreenpipeData\<close> changes, and is cleaned up on unmount.
  \<open>cleanup\<close> is the handle held by the pending cleanup, \<open>None\<close> while the panel is not
  mounted; \<open>view\<close> is the state of the panel. When time passes, every interval that is
  still in the runtime fires, mounted or not. A step yields the effects with their times.
\<close>

record panel_life =
  rt :: runtime
  cleanup :: "nat option"
  view :: panel_state

datatype life_event = Mount | Deps_change | Unmount | Elapse nat

fun life_step :: "life_event \<Rightarrow> panel_life \<Rightarrow> (nat \<times> effect) list \<times> panel_life" where
  "life_step Mount m =
     (case cleanup m of
        Some h \<Rightarrow> ([], m)
      | None \<Rightarrow>
          (let (effs, interval, r1, s1) = effect_run (rt m) panel_init
           in (map (Pair (clock (rt m))) effs,
               \<lparr>rt = r1, cleanup = Some interval, view = s1\<rparr>)))"
| "life_step Deps_change m =
     (case cleanup m of
        None \<Rightarrow> ([], m)
      | Some h \<Rightarrow>
          (let (effs, interval, r1, s1) = effect_run (effect_cleanup h (rt m)) (view m)
           in (map (Pair (clock (rt m))) effs,
               \<lparr>rt = r1, cleanup = Some interval, view = s1\<rparr>)))"
| "life_step Unmount m =
     (case cleanup m of
        None \<Rightarrow> ([], m)
      | Some h \<Rightarrow> ([], m\<lparr>rt := effect_cleanup h (rt m), cleanup := None\<rparr>))"
| "life_step (Elapse d) m =
     (let (fired, r1) = advance d (rt m);
          (timed, s1) = run_fired fired (view m)
      in (timed, m\<lparr>rt := r1, view := s1\<rparr>))"

fun life_run :: "life_event list \<Rightarrow> panel_life \<Rightarrow> (nat \<times> effect) list \<times> panel_life" where
  "life_run [] m = ([], m)"
| "life_run (ev # evs) m =
     (let (ts, m1) = life_step ev m;
          (ts2, m2) = life_run evs m1
      in (ts @ ts2, m2))"

definition life_init :: panel_life where
  "life_init =
     \<lparr>rt = \<lparr>clock = 0, next_handle = 0, intervals = []\<rparr>, cleanup = None,
      view = panel_init\<rparr>"


section \<open>The hook useAchievementVerification\<close>

text \<open>
  Modelled from the spec: the state of the hook \<open>useAchievementVerification\<close>, whose
  source is missing; the panel only calls it. The spec gives it a progress counter from 0
  to 100 and an error state, next to the \<open>verifying\<close> flag that the panel reads.
\<close>

record hook_state =
  hook_verifying :: bool
  verificationProgress :: nat
  hook_error :: "string option"

text \<open>
  Modelled from the spec: \<open>resetVerificationState\<close> of the missing hook, which clears
  progress and error state and touches nothing else.
\<close>

definition resetVerificationState :: "hook_state \<Rightarrow> hook_state" where
  "resetVerificationState h = h\<lparr>verificationProgress := 0, hook_error := None\<rparr>"

text \<open>
  Modelled from the spec: the start of \<open>verifyAchievement\<close> of the missing hook, which
  resets the result of any previous session and enters the verification in flight, with
  the progress at 0.
\<close>

definition verifyAchievement_begin :: "hook_state \<Rightarrow> hook_state" where
  "verifyAchievement_begin h =
     h\<lparr>hook_verifying := True, verificationProgress := 0, hook_error := None\<rparr>"

text \<open>
  Modelled from the spec: one step of the simulated progress of the missing hook, which
  advances toward 100 while the call to the capture service is awaited. The spec does not
  fix the steps; the amount a step adds is a parameter.
\<close>

definition verifyAchievement_advance :: "nat \<Rightarrow> hook_state \<Rightarrow> hook_state" where
  "verifyAchievement_advance d h =
     h\<lparr>verificationProgress := min 100 (verificationProgress h + d)\<rparr>"

text \<open>
  Modelled from the spec: the end of \<open>verifyAchievement\<close> of the missing hook, when the
  capture service has answered: the progress ends at 100 on success. The spec does not
  fix the value after a failure; it is taken to be the value reached.
\<close>

definition verifyAchievement_end :: "verify_outcome \<Rightarrow> hook_state \<Rightarrow> hook_state" where
  "verifyAchievement_end outcome h =
     (case outcome of
        Resolves v \<Rightarrow>
          if v then h\<lparr>hook_verifying := False, verificationProgress := 100\<rparr>
          else h\<lparr>hook_verifying := False\<rparr>
      | Throws e \<Rightarrow>
          h\<lparr>hook_verifying := False,
            hook_error := Some (or_default (err_message e) ''Verification failed'')\<rparr>)"

text \<open>
  Modelled from the spec: the values the counter of the missing hook takes over one verify
  call, in order: after the start, after each step, and when the promise settles.
\<close>

fun progress_steps :: "nat list \<Rightarrow> hook_state \<Rightarrow> nat list \<times> hook_state" where
  "progress_steps [] h = ([], h)"
| "progress_steps (d # ds) h =
     (let h1 = verifyAchievement_advance d h;
          (ps, h2) = progress_steps ds h1
      in (verificationProgress h1 # ps, h2))"

definition verifyAchievement_progress ::
  "nat list \<Rightarrow> verify_outcome \<Rightarrow> hook_state \<Rightarrow> nat list \<times> hook_state" where
  "verifyAchievement_progress ds outcome h =
     (let h0 = verifyAchievement_begin h;
          (ps, h1) = progress_steps ds h0;
          h2 = verifyAchievement_end outcome h1
      in (verificationProgress h0 # ps @ [verificationProgress h2], h2))"


section \<open>Numerals, for comparison with the source\<close>

text \<open>
  Not from the source, for comparison with it: the number that a chain id denotes when the
  whole of it, after an optional \<open>0x\<close>, is read as a hexadecimal numeral. The value is
  built from the least significant digit; a chain id with any other character, or without
  a digit, denotes none.
\<close>

fun hex_numeral_value :: "string \<Rightarrow> nat option" where
  "hex_numeral_value [] = Some 0"
| "hex_numeral_value (c # cs) =
     (case hex_digit_value c of
        None \<Rightarrow> None
      | Some d \<Rightarrow> (case hex_numeral_value cs of None \<Rightarrow> None | Some r \<Rightarrow> Some (d + 16 * r)))"

definition chain_id_value :: "string \<Rightarrow> nat option" where
  "chain_id_value cid =
     (let ds = strip_0x cid in if ds = [] then None else hex_numeral_value (rev ds))"

text \<open>
  Not from the source either: the number that decimal digits denote, least significant
  digit first.
\<close>

fun decimal_numeral_value :: "string \<Rightarrow> nat option" where
  "decimal_numeral_value [] = Some 0"
| "decimal_numeral_value (c # cs) =
     (case hex_digit_value c of
        None \<Rightarrow> None
      | Some d \<Rightarrow>
          if 10 \<le> d then None
          else (case decimal_numeral_value cs of None \<Rightarrow> None | Some r \<Rightarrow> Some (d + 10 * r)))"


section \<open>The panel together with the hook\<close>









section \<open>Invariants and scenarios\<close>

subsection \<open>Predicates used in the properties\<close>








fun is_settle :: "panel_event \<Rightarrow> bool" where
  "is_settle (Init_fetch_settles outcome) = True"
| "is_settle (Refresh_fetch_settles outcome) = True"
| "is_settle ev = False"

text \<open>
  The intervals of the runtime that holds one panel: none while the panel is not mounted;
  while it is mounted exactly the one that the pending cleanup holds, which calls
  \<open>initializeScreenpipe\<close>, with a delay of 30000 ms and due within that delay.
\<close>

definition life_ok :: "panel_life \<Rightarrow> bool" where
  "life_ok m =
     (case cleanup m of
        None \<Rightarrow> intervals (rt m) = []
      | Some h \<Rightarrow>
          map iv_handle (intervals (rt m)) = [h] \<and>
          list_all (\<lambda>i. iv_callback i = InitializeScreenpipe \<and> iv_delay i = 30000 \<and>
                        clock (rt m) < iv_due i \<and> iv_due i \<le> clock (rt m) + 30000)
            (intervals (rt m)))"

subsection \<open>Concrete inputs\<close>

definition selector_init :: selector_state where
  "selector_init = \<lparr>currentNetwork = None, isLoading = False, error = None\<rparr>"

fun rejecting_switch :: "js_error \<Rightarrow> provider" where
  "rejecting_switch err (wallet_switchEthereumChain c) = Rejects err"
| "rejecting_switch err call = Fulfils"

fun rejecting_add :: "js_error \<Rightarrow> provider" where
  "rejecting_add err (wallet_addEthereumChain c) = Rejects err"
| "rejecting_add err call = Fulfils"

fun rejecting_all :: "js_error \<Rightarrow> provider" where
  "rejecting_all err call = Rejects err"

definition provider_error :: "int \<Rightarrow> string \<Rightarrow> js_error" where
  "provider_error c m = \<lparr>err_code = Some c, err_message = Some m\<rparr>"

definition no_message :: js_error where
  "no_message = \<lparr>err_code = None, err_message = None\<rparr>"

definition add_suffix :: string where
  "add_suffix = ''. Please check the network details and try again.''"

definition a1 :: Achievement where
  "a1 = \<lparr>ach_id = ''a1'', title = ''First Flight'', description = ''Reach orbit'',
          rewardAmount = 50, completed = True, timestamp = None,
          verificationStatus = pending\<rparr>"

definition b2 :: Achievement where
  "b2 = \<lparr>ach_id = ''b2'', title = ''Star Collector'', description = ''Collect ten stars'',
          rewardAmount = 20, completed = True, timestamp = None,
          verificationStatus = pending\<rparr>"

definition c3 :: Achievement where
  "c3 = \<lparr>ach_id = ''c3'', title = ''Deep Space'', description = ''Leave the system'',
          rewardAmount = 100, completed = False, timestamp = None,
          verificationStatus = pending\<rparr>"

definition props1 :: panel_props where
  "props1 = \<lparr>achievements = [a1, b2], walletAddress = Some ''0xABC'',
              has_onVerificationComplete = True\<rparr>"

definition props3 :: panel_props where
  "props3 = \<lparr>achievements = [a1, b2, c3], walletAddress = Some ''0xABC'',
              has_onVerificationComplete = True\<rparr>"


definition selected_a1 :: panel_state where
  "selected_a1 = \<lparr>selectedAchievement = Some a1, connectionStatus = connected,
                   lastVerificationResult = None\<rparr>"


definition card_a1 :: card_props where
  "card_a1 = \<lparr>achievement = a1, card_walletAddress = Some ''0xABC'',
               card_has_onVerificationComplete = True\<rparr>"

definition timed_out :: js_error where
  "timed_out = \<lparr>err_code = None, err_message = Some ''Screenpipe timed out''\<rparr>"

definition empty_message :: js_error where
  "empty_message = \<lparr>err_code = None, err_message = Some []\<rparr>"

definition idle_hook :: hook_state where
  "idle_hook = \<lparr>hook_verifying = False, verificationProgress = 77, hook_error = None\<rparr>"


text \<open>
  The failure message in the words of the specification; its dash is written as the three
  bytes of its UTF-8 form.
\<close>

definition spec_failure_message :: string where
  "spec_failure_message =
     ''could not verify '' @ [CHR 0xE2, CHR 0x80, CHR 0x94] @ '' ensure content is visible''"








section \<open>Properties of getNetworkName\<close>

lemma hex_digit_not_space_or_sign:
  assumes "hex_digit_value c = Some d"
  shows "\<not> is_js_whitespace c" and "c \<noteq> CHR ''-''" and "c \<noteq> CHR ''+''"
  using assms
  by (auto simp: hex_digit_value_def is_js_whitespace_def Let_def split: if_splits)

text \<open>
  When every character is a digit, the left-to-right scan of \<open>parseInt\<close> takes them all
  and its running value is the value of the numeral.
\<close>

lemma radix_digits_all:
  "hex_numeral_value (rev ds) = Some v \<Longrightarrow>
     length (radix_digits ds) = length ds \<and> foldl (\<lambda>acc d. 16 * acc + d) 0 (radix_digits ds) = v"
proof (induction ds arbitrary: v rule: rev_induct)
  case Nil
  then show ?case by simp
next
  case (snoc c ds)
  from snoc.prems obtain d r where d: "hex_digit_value c = Some d"
    and r: "hex_numeral_value (rev ds) = Some r" and v: "v = d + 16 * r"
    by (auto split: option.splits)
  from snoc.IH [OF r] have len: "length (radix_digits ds) = length ds"
    and val: "foldl (\<lambda>acc d. 16 * acc + d) 0 (radix_digits ds) = r" by simp_all
  have app: "radix_digits (xs @ [c]) = radix_digits xs @ [d]"
    if "length (radix_digits xs) = length xs" for xs
    using that
  proof (induction xs)
    case Nil
    then show ?case by (simp add: d)
  next
    case (Cons x xs)
    then show ?case by (cases "hex_digit_value x") auto
  qed
  show ?case using app [OF len] len val v by simp
qed

text \<open>The digits that \<open>nat_to_decimal\<close> writes denote the number.\<close>

lemma digit_char_value: "d < 10 \<Longrightarrow> hex_digit_value (digit_char d) = Some d"
proof -
  assume "d < 10"
  then have "d \<in> {0, 1, 2, 3, 4, 5, 6, 7, 8, 9}" by auto
  then show ?thesis
    by (auto simp: digit_char_def hex_digit_value_def)
qed

lemma nat_to_decimal_value: "decimal_numeral_value (rev (nat_to_decimal n)) = Some n"
proof (induction n rule: nat_to_decimal.induct)
  case (1 n)
  show ?case
  proof (cases "n < 10")
    case True
    then show ?thesis
      by (subst nat_to_decimal.simps) (simp add: digit_char_value)
  next
    case False
    have "n mod 10 < 10" by simp
    then have d: "hex_digit_value (digit_char (n mod 10)) = Some (n mod 10)"
      by (rule digit_char_value)
    from 1 False have "decimal_numeral_value (rev (nat_to_decimal (n div 10))) = Some (n div 10)"
      by simp
    then show ?thesis using False d
      by (subst nat_to_decimal.simps) simp
  qed
qed

lemma networkNames_nonempty: "map_of networkNames k = Some name \<Longrightarrow> name \<noteq> []"
  by (auto simp: networkNames_def split: if_splits)

lemma getNetworkName_known:
  "map_of networkNames (toLowerCase cid) = Some name \<Longrightarrow> getNetworkName cid = JString name"
  by (simp add: getNetworkName_def networkNames_get_def networkNames_nonempty)

lemma parseInt16_hex:
  assumes "chain_id_value cid = Some v"
  shows "parseInt16 cid = (if v \<le> 9007199254740992 then Exact (int v) else Rounded (int v))"
proof -
  let ?ds = "strip_0x cid"
  from assms have ne: "?ds \<noteq> []" and val: "hex_numeral_value (rev ?ds) = Some v"
    by (auto simp: chain_id_value_def Let_def split: if_splits)
  from radix_digits_all [OF val] have len: "length (radix_digits ?ds) = length ?ds"
    and m: "math_int (radix_digits ?ds) = v" by (simp_all add: math_int_def)
  from ne len have Z: "radix_digits ?ds \<noteq> []" by auto
  obtain c cs where cid: "cid = c # cs" using ne by (cases cid) auto
  have c: "\<not> is_js_whitespace c \<and> c \<noteq> CHR ''-'' \<and> c \<noteq> CHR ''+''"
  proof (cases "c = CHR ''0''")
    case True
    then show ?thesis by (simp add: is_js_whitespace_def)
  next
    case False
    then have "?ds = c # cs" using cid by (cases cs) auto
    with Z obtain d where "hex_digit_value c = Some d" by (cases "hex_digit_value c") auto
    then show ?thesis using hex_digit_not_space_or_sign by blast
  qed
  then have "dropWhile is_js_whitespace cid = cid" and "strip_sign cid = (False, cid)"
    by (simp_all add: cid)
  then show ?thesis using Z m by (simp add: parseInt16_def Let_def)
qed

lemma parseInt16_no_digit:
  assumes "hex_digit_value c = None" "\<not> is_js_whitespace c" "c \<noteq> CHR ''-''" "c \<noteq> CHR ''+''"
  shows "parseInt16 (c # cs) = NaN"
proof -
  have "c \<noteq> CHR ''0''" using assms(1) by (auto simp: hex_digit_value_def)
  then have "strip_0x (c # cs) = c # cs" by (cases cs) auto
  then show ?thesis using assms by (simp add: parseInt16_def)
qed

text \<open>
  C10, as amended. \<open>getNetworkName\<close> is a function of the chain id alone and has no
  failing branch. A chain id whose lower-case form is one of the eight keys gives that
  key's name. A chain id that matches no key and no inherited property name, and that is
  a hexadecimal numeral (with or without \<open>0x\<close>) of value at most \<open>2^53\<close>, gives
  \<open>Chain\<close> and the decimal digits of the value. A chain id that matches no key and no
  inherited property name and starts with a character that is neither white space, nor a
  sign, nor a hexadecimal digit gives \<open>Chain NaN\<close>, as does the empty chain id.
\<close>

theorem getNetworkName_cases:
  "(map_of networkNames (toLowerCase cid) = Some name \<longrightarrow> getNetworkName cid = JString name) \<and>
   (networkNames_get (toLowerCase cid) = None \<and> chain_id_value cid = Some v \<and>
      v \<le> 9007199254740992 \<longrightarrow>
        getNetworkName cid = JString (''Chain '' @ nat_to_decimal v)) \<and>
   (networkNames_get (toLowerCase (c # cs)) = None \<and> hex_digit_value c = None \<and>
      \<not> is_js_whitespace c \<and> c \<noteq> CHR ''-'' \<and> c \<noteq> CHR ''+'' \<longrightarrow>
        getNetworkName (c # cs) = JString ''Chain NaN'') \<and>
   getNetworkName [] = JString ''Chain NaN''"
proof (intro conjI impI)
  assume "map_of networkNames (toLowerCase cid) = Some name"
  then show "getNetworkName cid = JString name" by (rule getNetworkName_known)
next
  assume a: "networkNames_get (toLowerCase cid) = None \<and> chain_id_value cid = Some v \<and>
      v \<le> 9007199254740992"
  then have "parseInt16 cid = Exact (int v)" using parseInt16_hex [of cid v] by simp
  with a show "getNetworkName cid = JString (''Chain '' @ nat_to_decimal v)"
    by (simp add: getNetworkName_def int_to_decimal_def)
next
  assume a: "networkNames_get (toLowerCase (c # cs)) = None \<and> hex_digit_value c = None \<and>
      \<not> is_js_whitespace c \<and> c \<noteq> CHR ''-'' \<and> c \<noteq> CHR ''+''"
  then have "parseInt16 (c # cs) = NaN" using parseInt16_no_digit by blast
  with a show "getNetworkName (c # cs) = JString ''Chain NaN''"
    by (simp add: getNetworkName_def)
next
  show "getNetworkName [] = JString ''Chain NaN''"
    by (simp add: getNetworkName_def networkNames_get_def networkNames_def
        Object_prototype_names_def toLowerCase_def parseInt16_def)
qed

theorem getNetworkName_cases_witness:
  "getNetworkName ''0XA4B1'' = JString ''Arbitrum One'' \<and>
   getNetworkName ''0x2105'' = JString ''Chain 8453'' \<and>
   getNetworkName ''mainnet'' = JString ''Chain NaN''"
proof -
  have k: "map_of networkNames (toLowerCase ''0XA4B1'') = Some ''Arbitrum One''"
    by (simp add: networkNames_def toLowerCase_def toLowerCase_unit_def upper_units_def
        lower_units_def)
  have h: "networkNames_get (toLowerCase ''0x2105'') = None \<and>
      chain_id_value ''0x2105'' = Some 8453 \<and> (8453::nat) \<le> 9007199254740992"
    by (simp add: networkNames_get_def networkNames_def Object_prototype_names_def
        toLowerCase_def toLowerCase_unit_def upper_units_def lower_units_def
        chain_id_value_def hex_digit_value_def)
  have n: "networkNames_get (toLowerCase ''mainnet'') = None \<and>
      hex_digit_value CHR ''m'' = None \<and> \<not> is_js_whitespace CHR ''m'' \<and>
      CHR ''m'' \<noteq> CHR ''-'' \<and> CHR ''m'' \<noteq> CHR ''+''"
    by (simp add: networkNames_get_def networkNames_def Object_prototype_names_def
        toLowerCase_def toLowerCase_unit_def upper_units_def lower_units_def
        hex_digit_value_def is_js_whitespace_def)
  have d: "nat_to_decimal 8453 = ''8453''" by (simp add: digit_char_def)
  from getNetworkName_cases [of "''0XA4B1''" "''Arbitrum One''" 0 "CHR ''m''" "''ainnet''"]
       getNetworkName_cases [of "''0x2105''" "''x''" 8453 "CHR ''m''" "''ainnet''"]
       k h n d
  show ?thesis by simp
qed

text \<open>
  C10 as it was stated fails: \<open>constructor\<close> is none of the eight keys, and the result is
  the inherited property, not a string; \<open>zz\<close> is none of the keys either and gives
  \<open>Chain NaN\<close>, where no decimal value follows \<open>Chain\<close>.
\<close>

theorem getNetworkName_counterexample:
  "map_of networkNames (toLowerCase ''constructor'') = None \<and>
   getNetworkName ''constructor'' = JObject \<and>
   map_of networkNames (toLowerCase ''zz'') = None \<and>
   getNetworkName ''zz'' = JString ''Chain NaN''"
  by (simp add: getNetworkName_def networkNames_get_def networkNames_def
      Object_prototype_names_def toLowerCase_def toLowerCase_unit_def upper_units_def
      lower_units_def parseInt16_def is_js_whitespace_def hex_digit_value_def)

section \<open>Properties of the wallet handlers\<close>

text \<open>
  C7, as amended. When the wallet provider rejects a request of \<open>handleSwitchNetwork\<close>
  (the permission request or the switch request), the message is
  \<open>Network switch rejected\<close> for code 4001 and \<open>Failed to switch network\<close> for every other
  error. The codes -32602 and -32603 are told apart from other errors only by
  \<open>handleAddMonadTestnet\<close>, for a rejected add-chain request: 4001 gives
  \<open>User rejected the request\<close>, -32602 gives \<open>Invalid parameters\<close>, -32603 gives
  \<open>Internal error - check RPC URL\<close>, and any other error that has a message gives
  \<open>Invalid chain ID\<close> when the message contains \<open>chain ID\<close> and \<open>Failed to add network\<close>
  otherwise, each followed by the same closing sentence.
\<close>

theorem wallet_error_messages:
  "(request wallet_requestPermissions = Rejects err \<or>
    request wallet_requestPermissions = Fulfils \<and>
    request (wallet_switchEthereumChain (switch_target s)) = Rejects err \<longrightarrow>
      error (snd (handleSwitchNetwork request s)) =
        Some (if err_code err = Some 4001 then ''Network switch rejected''
              else ''Failed to switch network'')) \<and>
   (request (wallet_addEthereumChain monad_chain_id) = Rejects err \<longrightarrow>
      (err_code err = Some 4001 \<longrightarrow>
         error (fst (snd (handleAddMonadTestnet True request s))) =
           Some (''User rejected the request'' @ add_suffix)) \<and>
      (err_code err = Some (- 32602) \<longrightarrow>
         error (fst (snd (handleAddMonadTestnet True request s))) =
           Some (''Invalid parameters'' @ add_suffix)) \<and>
      (err_code err = Some (- 32603) \<longrightarrow>
         error (fst (snd (handleAddMonadTestnet True request s))) =
           Some (''Internal error - check RPC URL'' @ add_suffix)) \<and>
      (err_code err \<notin> {Some 4001, Some (- 32602), Some (- 32603)} \<and>
       err_message err = Some m \<longrightarrow>
         error (fst (snd (handleAddMonadTestnet True request s))) =
           Some ((if includes_str m ''chain ID'' then ''Invalid chain ID''
                  else ''Failed to add network'') @ add_suffix)))"
  by (auto simp: handleSwitchNetwork_def handleAddMonadTestnet_def switch_error_message_def
      add_error_message_def add_suffix_def Let_def split: rpc_outcome.splits)

theorem wallet_error_messages_witness:
  "error (snd (handleSwitchNetwork (rejecting_all (provider_error 4001 ''User denied'')) selector_init))
     = Some ''Network switch rejected'' \<and>
   error (snd (handleSwitchNetwork
       (rejecting_switch (provider_error 4902 ''Unrecognized chain ID'')) selector_init))
     = Some ''Failed to switch network'' \<and>
   error (fst (snd (handleAddMonadTestnet True
       (rejecting_add (provider_error 4001 ''User denied'')) selector_init)))
     = Some ''User rejected the request. Please check the network details and try again.'' \<and>
   error (fst (snd (handleAddMonadTestnet True
       (rejecting_add (provider_error (- 32602) ''bad'')) selector_init)))
     = Some ''Invalid parameters. Please check the network details and try again.'' \<and>
   error (fst (snd (handleAddMonadTestnet True
       (rejecting_add (provider_error (- 32603) ''Internal JSON-RPC error'')) selector_init)))
     = Some ''Internal error - check RPC URL. Please check the network details and try again.'' \<and>
   error (fst (snd (handleAddMonadTestnet True
       (rejecting_add (provider_error 4902 ''Unknown chain ID'')) selector_init)))
     = Some ''Invalid chain ID. Please check the network details and try again.'' \<and>
   error (fst (snd (handleAddMonadTestnet True
       (rejecting_add (provider_error 4900 ''Disconnected'')) selector_init)))
     = Some ''Failed to add network. Please check the network details and try again.''"
  using wallet_error_messages [of "rejecting_all (provider_error 4001 ''User denied'')"
          "provider_error 4001 ''User denied''" selector_init "[]"]
        wallet_error_messages [of "rejecting_switch (provider_error 4902 ''Unrecognized chain ID'')"
          "provider_error 4902 ''Unrecognized chain ID''" selector_init "[]"]
        wallet_error_messages [of "rejecting_add (provider_error 4001 ''User denied'')"
          "provider_error 4001 ''User denied''" selector_init "[]"]
        wallet_error_messages [of "rejecting_add (provider_error (- 32602) ''bad'')"
          "provider_error (- 32602) ''bad''" selector_init "[]"]
        wallet_error_messages [of "rejecting_add (provider_error (- 32603) ''Internal JSON-RPC error'')"
          "provider_error (- 32603) ''Internal JSON-RPC error''" selector_init "[]"]
        wallet_error_messages [of "rejecting_add (provider_error 4902 ''Unknown chain ID'')"
          "provider_error 4902 ''Unknown chain ID''" selector_init "''Unknown chain ID''"]
        wallet_error_messages [of "rejecting_add (provider_error 4900 ''Disconnected'')"
          "provider_error 4900 ''Disconnected''" selector_init "''Disconnected''"]
  by (simp add: provider_error_def add_suffix_def monad_chain_id_def switch_target_def
      selector_init_def)

text \<open>
  C7 as it was stated fails: a switch request rejected with code -32602, with code
  -32603 and with the unknown code 4902 all give the one message
  \<open>Failed to switch network\<close>.
\<close>

theorem switch_error_counterexample:
  "error (snd (handleSwitchNetwork
       (rejecting_switch (provider_error (- 32602) ''Invalid params'')) selector_init))
     = Some ''Failed to switch network'' \<and>
   error (snd (handleSwitchNetwork
       (rejecting_switch (provider_error (- 32603) ''Internal JSON-RPC error'')) selector_init))
     = Some ''Failed to switch network'' \<and>
   error (snd (handleSwitchNetwork
       (rejecting_switch (provider_error 4902 ''Unrecognized chain ID'')) selector_init))
     = Some ''Failed to switch network''"
  by (simp add: handleSwitchNetwork_def switch_error_message_def provider_error_def
      selector_init_def switch_target_def)

text \<open>
  C8, as amended. \<open>handleAddMonadTestnet\<close> asks for confirmation before any request. When
  the user declines, no request is sent and the current network stays; the error message
  is cleared and the loading flag is off. When the user confirms and the add-chain
  request is fulfilled, the switch request follows, and whether it is fulfilled or
  rejected the handler ends without an error message and without an exception.
\<close>

theorem add_chain_confirmation:
  "handleAddMonadTestnet False request s =
     ([Confirm_dialog], s\<lparr>isLoading := False, error := None\<rparr>, False) \<and>
   (request (wallet_addEthereumChain monad_chain_id) = Fulfils \<longrightarrow>
      take 3 (fst (handleAddMonadTestnet True request s)) =
        [Confirm_dialog, Request (wallet_addEthereumChain monad_chain_id),
         Request (wallet_switchEthereumChain monad_chain_id)] \<and>
      snd (handleAddMonadTestnet True request s) =
        (s\<lparr>isLoading := False, error := None\<rparr>, False))"
  by (auto simp: handleAddMonadTestnet_def Let_def split: rpc_outcome.splits)

theorem add_chain_confirmation_witness:
  "take 3 (fst (handleAddMonadTestnet True
       (rejecting_switch (provider_error 4001 ''User denied'')) selector_init)) =
     [Confirm_dialog, Request (wallet_addEthereumChain ''0x279F''),
      Request (wallet_switchEthereumChain ''0x279F'')] \<and>
   snd (handleAddMonadTestnet True
       (rejecting_switch (provider_error 4001 ''User denied'')) selector_init) =
     (selector_init, False)"
proof -
  have "rejecting_switch (provider_error 4001 ''User denied'')
          (wallet_addEthereumChain monad_chain_id) = Fulfils"
    by simp
  with add_chain_confirmation
    [of "rejecting_switch (provider_error 4001 ''User denied'')" selector_init]
  show ?thesis by (simp add: monad_chain_id_def selector_init_def)
qed

text \<open>
  C8 as it was stated fails: after a switch that the user rejected, the state holds the
  message \<open>Network switch rejected\<close>; a declined confirmation then clears it, so the state
  changes.
\<close>

theorem add_chain_declined_counterexample:
  "error (snd (handleSwitchNetwork (rejecting_all (provider_error 4001 ''User denied''))
       selector_init)) = Some ''Network switch rejected'' \<and>
   error (fst (snd (handleAddMonadTestnet False (rejecting_all (provider_error 4001 ''User denied''))
       (snd (handleSwitchNetwork (rejecting_all (provider_error 4001 ''User denied''))
          selector_init))))) = None \<and>
   fst (snd (handleAddMonadTestnet False (rejecting_all (provider_error 4001 ''User denied''))
       (snd (handleSwitchNetwork (rejecting_all (provider_error 4001 ''User denied''))
          selector_init)))) \<noteq>
     snd (handleSwitchNetwork (rejecting_all (provider_error 4001 ''User denied'')) selector_init)"
proof -
  have s: "snd (handleSwitchNetwork (rejecting_all (provider_error 4001 ''User denied''))
             selector_init) =
           \<lparr>currentNetwork = None, isLoading = False, error = Some ''Network switch rejected''\<rparr>"
    by (simp add: handleSwitchNetwork_def switch_error_message_def provider_error_def
        selector_init_def)
  show ?thesis unfolding s by (simp add: handleAddMonadTestnet_def)
qed

section \<open>Properties of the verification\<close>

text \<open>
  C1, as amended. With a selection and a wallet address, when \<open>verifyAchievement\<close>
  resolves to true the panel calls \<open>onVerificationComplete\<close> with the id of the achievement
  and \<open>true\<close>, after the verify call; when \<open>verifyAchievement\<close> throws, the panel does not
  call it at all. \<open>handleVerify\<close> of the card passes the boolean of either resolution to its
  own callback, which takes no id, and makes no call when \<open>verifyAchievement\<close> throws.
\<close>

theorem verification_callback:
  "(selectedAchievement s = Some a \<and> wallet_present (walletAddress props) \<longrightarrow>
      (has_onVerificationComplete props \<longrightarrow>
         fst (verifySelectedAchievement props (Resolves True) s) =
           [ResetVerificationState, VerifyAchievement a (walletAddress props),
            OnVerificationComplete (ach_id a) True,
            Toast ''Verification Successful'' (title a @ '' has been verified'')
              default_variant]) \<and>
      (\<forall>i v. OnVerificationComplete i v \<notin>
                set (fst (verifySelectedAchievement props (Throws e) s)))) \<and>
   (card_has_onVerificationComplete cprops \<longrightarrow>
      handleVerify cprops (Resolves v) =
        ([VerifyAchievement (achievement cprops) (card_walletAddress cprops),
          Card_onVerificationComplete v], None)) \<and>
   handleVerify cprops (Throws e) =
     ([VerifyAchievement (achievement cprops) (card_walletAddress cprops)], Some e)"
  by (auto simp: verifySelectedAchievement_def verify_begin_def verify_settle_def
      verify_effects_def handleVerify_def)

theorem verification_callback_witness:
  "fst (verifySelectedAchievement props1 (Resolves True) selected_a1) =
     [ResetVerificationState, VerifyAchievement a1 (Some ''0xABC''),
      OnVerificationComplete ''a1'' True,
      Toast ''Verification Successful'' ''First Flight has been verified'' default_variant] \<and>
   OnVerificationComplete ''a1'' False \<notin>
     set (fst (verifySelectedAchievement props1 (Throws timed_out) selected_a1)) \<and>
   handleVerify card_a1 (Resolves False) =
     ([VerifyAchievement a1 (Some ''0xABC''), Card_onVerificationComplete False], None)"
proof -
  have "selectedAchievement selected_a1 = Some a1 \<and> wallet_present (walletAddress props1)"
    and "has_onVerificationComplete props1" and "card_has_onVerificationComplete card_a1"
    by (simp_all add: selected_a1_def props1_def card_a1_def)
  with verification_callback [of selected_a1 a1 props1 timed_out card_a1 False]
  show ?thesis by (simp add: props1_def a1_def card_a1_def)
qed

text \<open>
  C1 as it was stated fails: when the verify call throws, the panel resets, calls, logs and
  shows a toast, and the callback is not among its effects.
\<close>

theorem verification_callback_counterexample:
  "fst (verifySelectedAchievement props1 (Throws timed_out) selected_a1) =
     [ResetVerificationState, VerifyAchievement a1 (Some ''0xABC''), Console_error_log,
      Toast ''Verification Failed'' ''Screenpipe timed out'' destructive]"
  by (simp add: verifySelectedAchievement_def verify_begin_def verify_settle_def
      verify_effects_def selected_a1_def props1_def or_default_def timed_out_def)

text \<open>
  C2, as amended. When a verify attempt fails, the panel leaves the selected achievement,
  and with it the verification status, as it was and reports no success to the owner of
  the achievements. The failure message is
  \<open>Could not verify achievement. Make sure the content is visible on your screen.\<close> when
  the call resolves to false; when it throws, the message is that of the error, or
  \<open>Verification failed due to an unexpected error\<close> when the error has no message or an
  empty one.
\<close>

theorem failed_verification:
  "selectedAchievement s = Some a \<and> wallet_present (walletAddress props) \<longrightarrow>
     (let (effs, s') = verifySelectedAchievement props (Resolves False) s
      in selectedAchievement s' = Some a \<and> connectionStatus s' = connectionStatus s \<and>
         OnVerificationComplete (ach_id a) True \<notin> set effs \<and>
         lastVerificationResult s' =
           Some \<lparr>success = False,
                 message = ''Could not verify achievement. Make sure the content is visible on your screen.'',
                 achievementId = Some (ach_id a)\<rparr>) \<and>
     (let (effs, s') = verifySelectedAchievement props (Throws e) s
      in selectedAchievement s' = Some a \<and> connectionStatus s' = connectionStatus s \<and>
         OnVerificationComplete (ach_id a) True \<notin> set effs \<and>
         lastVerificationResult s' =
           Some \<lparr>success = False,
                 message =
                   (case err_message e of
                      None \<Rightarrow> ''Verification failed due to an unexpected error''
                    | Some m \<Rightarrow>
                        if m = [] then ''Verification failed due to an unexpected error''
                        else m),
                 achievementId = None\<rparr>)"
  by (auto simp: verifySelectedAchievement_def verify_begin_def verify_settle_def
      verify_effects_def verify_result_def or_default_def split: option.splits)

theorem failed_verification_witness:
  "(let (effs, s') = verifySelectedAchievement props1 (Throws timed_out) selected_a1
    in selectedAchievement s' = Some a1 \<and> connectionStatus s' = connected \<and>
       OnVerificationComplete ''a1'' True \<notin> set effs \<and>
       lastVerificationResult s' =
         Some \<lparr>success = False, message = ''Screenpipe timed out'', achievementId = None\<rparr>)"
proof -
  have "selectedAchievement selected_a1 = Some a1 \<and> wallet_present (walletAddress props1)"
    by (simp add: selected_a1_def props1_def)
  with failed_verification [of selected_a1 a1 props1 timed_out]
  have "let (effs, s') = verifySelectedAchievement props1 (Throws timed_out) selected_a1
      in selectedAchievement s' = Some a1 \<and> connectionStatus s' = connectionStatus selected_a1 \<and>
         OnVerificationComplete (ach_id a1) True \<notin> set effs \<and>
         lastVerificationResult s' =
           Some \<lparr>success = False,
                 message =
                   (case err_message timed_out of
                      None \<Rightarrow> ''Verification failed due to an unexpected error''
                    | Some m \<Rightarrow>
                        if m = [] then ''Verification failed due to an unexpected error''
                        else m),
                 achievementId = None\<rparr>"
    by blast
  moreover have "connectionStatus selected_a1 = connected" "ach_id a1 = ''a1''"
    "err_message timed_out = Some ''Screenpipe timed out''"
    by (simp_all add: selected_a1_def a1_def timed_out_def)
  ultimately show ?thesis by simp
qed

text \<open>
  C2 as it was stated fails: after a resolution to false the message is not the one of the
  specification, and after an error with an empty message it is the fixed text, not the
  message of the error.
\<close>

theorem failed_verification_counterexample:
  "map_option message
     (lastVerificationResult (snd (verifySelectedAchievement props1 (Resolves False) selected_a1)))
     \<noteq> Some spec_failure_message \<and>
   map_option message
     (lastVerificationResult (snd (verifySelectedAchievement props1 (Throws empty_message) selected_a1)))
     = Some ''Verification failed due to an unexpected error''"
  by (simp add: verifySelectedAchievement_def verify_begin_def verify_settle_def
      verify_result_def selected_a1_def props1_def or_default_def spec_failure_message_def
      empty_message_def)





















section \<open>Properties of the connection\<close>

lemma connecting_until_settled:
  "connectionStatus s = connecting \<Longrightarrow>
   list_all (\<lambda>(props, verifying, ev). \<not> is_settle ev) evs \<Longrightarrow>
     connectionStatus (snd (panel_run evs s)) = connecting"
proof (induction evs arbitrary: s)
  case Nil
  then show ?case by simp
next
  case (Cons x evs)
  obtain props verifying ev where x: "x = (props, verifying, ev)" by (cases x) auto
  from Cons.prems x have ns: "\<not> is_settle ev" by simp
  have "connectionStatus (snd (panel_step props verifying ev s)) = connecting"
    using Cons.prems(1) ns
    by (cases ev) (auto simp: initializeScreenpipe_begin_def refresh_begin_def
        verifySelectedAchievement_def verify_begin_def verify_settle_def split: option.splits)
  with Cons.IH Cons.prems(2) show ?case by (simp add: x split_beta)
qed

text \<open>
  C4, as amended. The status starts as \<open>connecting\<close> and stays so until a fetch settles.
  Every fetch that succeeds sets it to \<open>connected\<close> and every fetch that fails sets it to
  \<open>disconnected\<close>. From any status the Refresh button (enabled while not verifying) sets
  \<open>connecting\<close> as it starts its fetch; the periodic timer starts its fetch and leaves the
  status as it is until that fetch settles.
\<close>

theorem connection_lifecycle:
  "connectionStatus panel_init = connecting \<and>
   (list_all (\<lambda>(props, verifying, ev). \<not> is_settle ev) evs \<longrightarrow>
      connectionStatus (snd (panel_run evs panel_init)) = connecting) \<and>
   connectionStatus (snd (panel_step props verifying (Init_fetch_settles Fetch_ok) s)) = connected \<and>
   connectionStatus (snd (panel_step props verifying (Refresh_fetch_settles Fetch_ok) s)) = connected \<and>
   connectionStatus (snd (panel_step props verifying (Init_fetch_settles Fetch_failed) s))
     = disconnected \<and>
   connectionStatus (snd (panel_step props verifying (Refresh_fetch_settles Fetch_failed) s))
     = disconnected \<and>
   panel_step props False Click_refresh s =
     ([FetchScreenpipeData], s\<lparr>connectionStatus := connecting\<rparr>) \<and>
   panel_step props verifying Timer_fires s = ([FetchScreenpipeData], s)"
proof -
  have "connectionStatus panel_init = connecting" by (simp add: panel_init_def)
  then show ?thesis using connecting_until_settled [of panel_init evs]
    by (simp add: initializeScreenpipe_begin_def initializeScreenpipe_settle_def
        refresh_begin_def refresh_settle_def)
qed

theorem connection_lifecycle_witness:
  "connectionStatus (snd (panel_run
      [(props3, False, Mounts), (props3, False, Click_refresh), (props3, False, Timer_fires)]
      panel_init)) = connecting"
proof -
  have "list_all (\<lambda>(props, verifying, ev). \<not> is_settle ev)
      [(props3, False, Mounts), (props3, False, Click_refresh), (props3, False, Timer_fires)]"
    by simp
  with connection_lifecycle show ?thesis by blast
qed

text \<open>
  C4 as it was stated fails: once the first fetch has succeeded, the firing of the
  timer leaves the status \<open>connected\<close>; it does not pass through \<open>connecting\<close>.
\<close>

theorem timer_connecting_counterexample:
  "connectionStatus (snd (panel_run
      [(props3, False, Mounts), (props3, False, Init_fetch_settles Fetch_ok),
       (props3, False, Timer_fires)] panel_init)) = connected"
  by (simp add: panel_init_def initializeScreenpipe_begin_def initializeScreenpipe_settle_def)


section \<open>Properties of the interval\<close>

lemma life_ok_Some:
  "cleanup m = Some h \<Longrightarrow>
     life_ok m =
       (\<exists>t. intervals (rt m) =
               [\<lparr>iv_handle = h, iv_callback = InitializeScreenpipe, iv_delay = 30000, iv_due = t\<rparr>] \<and>
            clock (rt m) < t \<and> t \<le> clock (rt m) + 30000)"
proof (cases "intervals (rt m)")
  case Nil
  assume "cleanup m = Some h"
  with Nil show ?thesis by (simp add: life_ok_def)
next
  case (Cons i rest)
  assume c: "cleanup m = Some h"
  obtain h' cb ms t where i: "i = \<lparr>iv_handle = h', iv_callback = cb, iv_delay = ms, iv_due = t\<rparr>"
    by (cases i) auto
  show ?thesis using c Cons i by (auto simp: life_ok_def)
qed

lemma life_ok_None: "cleanup m = None \<Longrightarrow> life_ok m = (intervals (rt m) = [])"
  by (simp add: life_ok_def)

lemma run_fired_fetches:
  "run_fired fired s = (map (\<lambda>(t, cb). (t, FetchScreenpipeData)) fired, s)"
proof (induction fired arbitrary: s)
  case Nil
  then show ?case by simp
next
  case (Cons x fired)
  obtain t cb where x: "x = (t, cb)" by (cases x) auto
  show ?case using Cons.IH
    by (cases cb) (simp add: x initializeScreenpipe_begin_def)
qed

lemma next_due:
  fixes until t :: nat
  assumes "t \<le> until"
  shows "until < t + ((until - t) div 30000 + 1) * 30000"
    and "t + ((until - t) div 30000 + 1) * 30000 \<le> until + 30000"
proof -
  define q where "q = (until - t) div 30000"
  define r where "r = (until - t) mod 30000"
  have "until - t = 30000 * q + r" by (simp add: q_def r_def)
  moreover have "r < 30000" by (simp add: r_def)
  ultimately have "until < t + (30000 * q + 30000)"
    and "t + (30000 * q + 30000) \<le> until + 30000"
    using assms by linarith+
  then show "until < t + ((until - t) div 30000 + 1) * 30000"
    and "t + ((until - t) div 30000 + 1) * 30000 \<le> until + 30000"
    by (simp_all add: q_def algebra_simps)
qed

lemma life_step_ok: "life_ok m \<Longrightarrow> life_ok (snd (life_step ev m))"
proof (cases "cleanup m")
  case None
  assume "life_ok m"
  with None have iv: "intervals (rt m) = []" by (simp add: life_ok_None)
  show ?thesis
  proof (cases ev)
    case Mount
    have "cleanup (snd (life_step Mount m)) = Some (next_handle (rt m))"
      using None by (simp add: effect_run_def setInterval_def split_beta)
    then show ?thesis using None iv Mount
      by (simp add: life_ok_Some effect_run_def setInterval_def split_beta)
  next
    case (Elapse d)
    then show ?thesis using None iv
      by (simp add: life_ok_None advance_def split_beta)
  qed (use None iv in \<open>simp_all add: life_ok_None\<close>)
next
  case (Some h)
  assume "life_ok m"
  with Some obtain t where iv: "intervals (rt m) =
      [\<lparr>iv_handle = h, iv_callback = InitializeScreenpipe, iv_delay = 30000, iv_due = t\<rparr>]"
    and lo: "clock (rt m) < t" and hi: "t \<le> clock (rt m) + 30000"
    by (auto simp: life_ok_Some)
  show ?thesis
  proof (cases ev)
    case Mount
    then show ?thesis using Some iv lo hi by (simp add: life_ok_Some)
  next
    case Deps_change
    have "cleanup (snd (life_step Deps_change m)) = Some (next_handle (rt m))"
      using Some by (simp add: effect_run_def setInterval_def effect_cleanup_def
          clearInterval_def split_beta)
    then show ?thesis using Some iv Deps_change
      by (simp add: life_ok_Some effect_run_def setInterval_def effect_cleanup_def
          clearInterval_def split_beta)
  next
    case Unmount
    then show ?thesis using Some iv
      by (simp add: life_ok_None effect_cleanup_def clearInterval_def)
  next
    case (Elapse d)
    have c: "cleanup (snd (life_step (Elapse d) m)) = Some h"
      using Some by (simp add: split_beta)
    show ?thesis
    proof (cases "clock (rt m) + d < t")
      case True
      then show ?thesis using Elapse Some iv lo hi c
        by (simp add: life_ok_Some advance_def firings_def Let_def split_beta)
    next
      case False
      then have "t \<le> clock (rt m) + d" by simp
      from next_due [OF this] show ?thesis using Elapse Some iv False c
        by (simp add: life_ok_Some advance_def firings_def Let_def split_beta)
    qed
  qed
qed

lemma life_run_ok: "life_ok m \<Longrightarrow> life_ok (snd (life_run evs m))"
proof (induction evs arbitrary: m)
  case Nil
  then show ?case by simp
next
  case (Cons ev evs)
  from Cons.IH [OF life_step_ok [OF Cons.prems, of ev]]
  show ?case by (simp add: split_beta)
qed

lemma firings_count:
  "firings (t + e + d)
     \<lparr>iv_handle = h, iv_callback = cb, iv_delay = 30000,
      iv_due = t + 30000 * (e div 30000 + 1)\<rparr> =
     (e + d) div 30000 - e div 30000"
proof -
  define c where "c = e div 30000 + 1"
  show ?thesis
  proof (cases "e + d < 30000 * c")
    case True
    then have "(e + d) div 30000 < c"
      by (simp add: div_less_iff_less_mult mult.commute)
    then have "(e + d) div 30000 - e div 30000 = 0" by (simp add: c_def)
    moreover have "firings (t + e + d)
        \<lparr>iv_handle = h, iv_callback = cb, iv_delay = 30000, iv_due = t + 30000 * c\<rparr> = 0"
      using True by (simp add: firings_def)
    ultimately show ?thesis by (simp only: c_def)
  next
    case False
    then have "30000 * c \<le> e + d" by simp
    then obtain x where x: "e + d = 30000 * c + x"
      using le_iff_add by blast
    have "(30000 * c + x) div 30000 = c + x div 30000"
      by simp
    then have q: "(e + d) div 30000 = c + x div 30000"
      by (simp only: x)
    have "t + e + d - (t + 30000 * c) = x"
      using x by simp
    then have "firings (t + e + d)
        \<lparr>iv_handle = h, iv_callback = cb, iv_delay = 30000, iv_due = t + 30000 * c\<rparr> =
        x div 30000 + 1"
      using False by (simp add: firings_def)
    moreover have "(e + d) div 30000 - e div 30000 = x div 30000 + 1"
      unfolding q by (simp add: c_def)
    ultimately show ?thesis by (simp only: c_def)
  qed
qed

lemma advance_single:
  "intervals r = [i] \<Longrightarrow>
     advance d r =
       (map (\<lambda>k. (iv_due i + k * iv_delay i, iv_callback i)) [0..<firings (clock r + d) i],
        r\<lparr>clock := clock r + d,
          intervals := [i\<lparr>iv_due := iv_due i + firings (clock r + d) i * iv_delay i\<rparr>]\<rparr>)"
  by (simp add: advance_def Let_def)

lemma elapse_step:
  assumes iv0: "intervals (rt m) =
      [\<lparr>iv_handle = h, iv_callback = InitializeScreenpipe, iv_delay = 30000,
        iv_due = t + 30000 * (n + 1)\<rparr>]"
    and cnt: "firings (clock (rt m) + d)
      \<lparr>iv_handle = h, iv_callback = InitializeScreenpipe, iv_delay = 30000,
       iv_due = t + 30000 * (n + 1)\<rparr> = n' - n"
    and le: "n \<le> n'"
  shows "fst (life_step (Elapse d) m) =
           map (\<lambda>k. (t + 30000 * (k + 1), FetchScreenpipeData)) [n..<n']"
    and "intervals (rt (snd (life_step (Elapse d) m))) =
      [\<lparr>iv_handle = h, iv_callback = InitializeScreenpipe, iv_delay = 30000,
        iv_due = t + 30000 * (n' + 1)\<rparr>]"
    and "clock (rt (snd (life_step (Elapse d) m))) = clock (rt m) + d"
proof -
  let ?i = "\<lparr>iv_handle = h, iv_callback = InitializeScreenpipe, iv_delay = 30000,
        iv_due = t + 30000 * (n + 1)\<rparr>"
  have adv: "advance d (rt m) =
       (map (\<lambda>k. (t + 30000 * (n + 1) + k * 30000, InitializeScreenpipe)) [0..<n' - n],
        rt m\<lparr>clock := clock (rt m) + d,
          intervals := [?i\<lparr>iv_due := t + 30000 * (n + 1) + (n' - n) * 30000\<rparr>]\<rparr>)"
    using advance_single [OF iv0, of d] unfolding cnt by simp
  have sh: "map (\<lambda>k. k + n) [0..<n' - n] = [n..<n']"
    using le by (simp add: map_add_upt)
  have "fst (life_step (Elapse d) m) =
          map (\<lambda>k. (t + 30000 * (n + 1) + k * 30000, FetchScreenpipeData)) [0..<n' - n]"
    by (simp add: adv run_fired_fetches o_def)
  also have "\<dots> = map (\<lambda>k. (t + 30000 * (k + 1), FetchScreenpipeData)) (map (\<lambda>k. k + n) [0..<n' - n])"
    by (simp add: o_def algebra_simps)
  finally show "fst (life_step (Elapse d) m) =
      map (\<lambda>k. (t + 30000 * (k + 1), FetchScreenpipeData)) [n..<n']"
    by (simp only: sh)
  have "t + 30000 * (n + 1) + (n' - n) * 30000 = t + 30000 * (n' + 1)"
    using le by (simp add: algebra_simps)
  then show "intervals (rt (snd (life_step (Elapse d) m))) =
      [\<lparr>iv_handle = h, iv_callback = InitializeScreenpipe, iv_delay = 30000,
        iv_due = t + 30000 * (n' + 1)\<rparr>]"
    by (simp add: adv run_fired_fetches)
  show "clock (rt (snd (life_step (Elapse d) m))) = clock (rt m) + d"
    by (simp add: adv run_fired_fetches)
qed

lemma elapse_schedule:
  assumes "intervals (rt m) =
      [\<lparr>iv_handle = h, iv_callback = InitializeScreenpipe, iv_delay = 30000,
        iv_due = t + 30000 * (e div 30000 + 1)\<rparr>]"
    and "clock (rt m) = t + e"
  shows "fst (life_run (map Elapse ds) m) =
           map (\<lambda>k. (t + 30000 * (k + 1), FetchScreenpipeData))
             [e div 30000..<(e + sum_list ds) div 30000]"
  using assms
proof (induction ds arbitrary: m e)
  case Nil
  then show ?case by simp
next
  case (Cons d ds)
  define n where "n = e div 30000"
  define n' where "n' = (e + d) div 30000"
  define n'' where "n'' = (e + d + sum_list ds) div 30000"
  define m1 where "m1 = snd (life_step (Elapse d) m)"
  have iv0: "intervals (rt m) =
      [\<lparr>iv_handle = h, iv_callback = InitializeScreenpipe, iv_delay = 30000,
        iv_due = t + 30000 * (n + 1)\<rparr>]"
    using Cons.prems(1) by (simp only: n_def)
  have "firings (t + e + d)
      \<lparr>iv_handle = h, iv_callback = InitializeScreenpipe, iv_delay = 30000,
       iv_due = t + 30000 * (e div 30000 + 1)\<rparr> = (e + d) div 30000 - e div 30000"
    by (rule firings_count)
  then have cnt: "firings (clock (rt m) + d)
      \<lparr>iv_handle = h, iv_callback = InitializeScreenpipe, iv_delay = 30000,
       iv_due = t + 30000 * (n + 1)\<rparr> = n' - n"
    by (simp only: n_def n'_def Cons.prems(2))
  have le: "n \<le> n'" unfolding n_def n'_def by (rule div_le_mono) simp
  have le2: "n' \<le> n''" unfolding n'_def n''_def by (rule div_le_mono) simp
  note st = elapse_step [OF iv0 cnt le]
  have fired: "fst (life_step (Elapse d) m) =
      map (\<lambda>k. (t + 30000 * (k + 1), FetchScreenpipeData)) [n..<n']"
    by (rule st(1))
  have iv: "intervals (rt m1) =
      [\<lparr>iv_handle = h, iv_callback = InitializeScreenpipe, iv_delay = 30000,
        iv_due = t + 30000 * ((e + d) div 30000 + 1)\<rparr>]"
    using st(2) by (simp only: m1_def n'_def)
  have ck: "clock (rt m1) = t + (e + d)"
    using st(3) by (simp only: m1_def Cons.prems(2) add.assoc)
  have "fst (life_run (map Elapse ds) m1) =
     map (\<lambda>k. (t + 30000 * (k + 1), FetchScreenpipeData))
       [(e + d) div 30000..<(e + d + sum_list ds) div 30000]"
    by (rule Cons.IH [OF iv ck])
  then have rest: "fst (life_run (map Elapse ds) m1) =
      map (\<lambda>k. (t + 30000 * (k + 1), FetchScreenpipeData)) [n'..<n'']"
    by (simp only: n'_def n''_def)
  obtain j where j: "n'' = n' + j" using le2 le_iff_add by blast
  have split: "[n..<n''] = [n..<n'] @ [n'..<n'']"
    unfolding j using le by (rule upt_add_eq_append)
  have "fst (life_run (map Elapse (d # ds)) m) =
          fst (life_step (Elapse d) m) @ fst (life_run (map Elapse ds) m1)"
    by (simp add: split_beta m1_def del: life_step.simps)
  also have "\<dots> = map (\<lambda>k. (t + 30000 * (k + 1), FetchScreenpipeData)) [n..<n'']"
    by (simp only: fired rest split map_append)
  finally show ?case
    by (simp only: n_def n''_def sum_list.Cons add.assoc)
qed

lemma elapse_no_interval:
  "intervals (rt m) = [] \<Longrightarrow> fst (life_run (map Elapse ds) m) = []"
proof (induction ds arbitrary: m)
  case Nil
  then show ?case by simp
next
  case (Cons d ds)
  have "intervals (rt (snd (life_step (Elapse d) m))) = []"
    and "fst (life_step (Elapse d) m) = []"
    using Cons.prems by (simp_all add: advance_def split_beta)
  with Cons.IH show ?case by (simp add: split_beta del: life_step.simps)
qed

text \<open>
  C9. Through every history of mounting, changes of the dependency, unmounting and
  passing time, the runtime of a mounted panel holds exactly one interval, which calls
  \<open>initializeScreenpipe\<close> with a delay of 30000 ms, and that of a panel that is not mounted
  holds none. The cleanup on unmount leaves no interval, at whatever moment it comes, so
  that no fetch is started by time passing afterwards. Each run of the effect, at time
  \<open>t\<close>, starts a fetch at once, and its interval starts a fetch at \<open>t + 30000\<close>,
  \<open>t + 60000\<close> and so on for as long as the effect is not run again or cleaned up: over
  any spans of time that add up to \<open>d\<close> milliseconds, \<open>d div 30000\<close> fetches.
\<close>

theorem interval_lifecycle:
  "life_ok (snd (life_run evs life_init)) \<and>
   intervals (rt (snd (life_step Unmount (snd (life_run evs life_init))))) = [] \<and>
   fst (life_run (map Elapse ds) (snd (life_step Unmount (snd (life_run evs life_init))))) = [] \<and>
   (let m = snd (life_run evs life_init);
        ran = life_step (if cleanup m = None then Mount else Deps_change) m
    in fst ran = [(clock (rt m), FetchScreenpipeData)] \<and>
       fst (life_run (map Elapse ds) (snd ran)) =
         map (\<lambda>k. (clock (rt m) + 30000 * (k + 1), FetchScreenpipeData))
           [0..<sum_list ds div 30000])"
proof -
  let ?m = "snd (life_run evs life_init)"
  have "life_ok life_init" by (simp add: life_ok_def life_init_def)
  then have ok: "life_ok ?m" by (rule life_run_ok)
  have un: "intervals (rt (snd (life_step Unmount ?m))) = []"
  proof (cases "cleanup ?m")
    case None
    then show ?thesis using ok by (simp add: life_ok_None)
  next
    case (Some h)
    then show ?thesis using ok
      by (auto simp: life_ok_Some effect_cleanup_def clearInterval_def)
  qed
  then have quiet: "fst (life_run (map Elapse ds) (snd (life_step Unmount ?m))) = []"
    by (rule elapse_no_interval)
  let ?ran = "life_step (if cleanup ?m = None then Mount else Deps_change) ?m"
  have "fst ?ran = [(clock (rt ?m), FetchScreenpipeData)] \<and>
    (\<exists>h. intervals (rt (snd ?ran)) =
       [\<lparr>iv_handle = h, iv_callback = InitializeScreenpipe, iv_delay = 30000,
         iv_due = clock (rt ?m) + 30000 * (0 div 30000 + 1)\<rparr>]) \<and>
    clock (rt (snd ?ran)) = clock (rt ?m) + 0"
  proof (cases "cleanup ?m")
    case None
    then show ?thesis using ok
      by (simp add: life_ok_None effect_run_def setInterval_def split_beta
          initializeScreenpipe_begin_def)
  next
    case (Some h)
    then show ?thesis using ok
      by (auto simp: life_ok_Some effect_run_def setInterval_def effect_cleanup_def
          clearInterval_def split_beta initializeScreenpipe_begin_def)
  qed
  then obtain h where first: "fst ?ran = [(clock (rt ?m), FetchScreenpipeData)]"
    and iv: "intervals (rt (snd ?ran)) =
       [\<lparr>iv_handle = h, iv_callback = InitializeScreenpipe, iv_delay = 30000,
         iv_due = clock (rt ?m) + 30000 * (0 div 30000 + 1)\<rparr>]"
    and ck: "clock (rt (snd ?ran)) = clock (rt ?m) + 0" by blast
  from elapse_schedule [OF iv ck, of ds]
  have "fst (life_run (map Elapse ds) (snd ?ran)) =
          map (\<lambda>k. (clock (rt ?m) + 30000 * (k + 1), FetchScreenpipeData))
            [0..<sum_list ds div 30000]"
    by simp
  with ok un quiet first show ?thesis by (simp add: Let_def)
qed

theorem interval_lifecycle_witness:
  "fst (life_run [Mount, Elapse 95000, Unmount, Elapse 100000] life_init) =
     [(0, FetchScreenpipeData), (30000, FetchScreenpipeData), (60000, FetchScreenpipeData),
      (90000, FetchScreenpipeData)] \<and>
   life_ok (snd (life_run [Mount, Elapse 95000] life_init)) \<and>
   intervals (rt (snd (life_step Unmount (snd (life_run [Mount, Elapse 95000] life_init))))) = [] \<and>
   fst (life_run (map Elapse [40000, 55000])
          (snd (life_step Unmount (snd (life_run [Mount, Elapse 95000] life_init))))) = [] \<and>
   fst (life_step Deps_change (snd (life_run [Mount, Elapse 95000] life_init))) =
     [(95000, FetchScreenpipeData)] \<and>
   fst (life_run (map Elapse [40000, 55000])
          (snd (life_step Deps_change (snd (life_run [Mount, Elapse 95000] life_init))))) =
     [(125000, FetchScreenpipeData), (155000, FetchScreenpipeData),
      (185000, FetchScreenpipeData)]"
proof -
  have run: "fst (life_run [Mount, Elapse 95000, Unmount, Elapse 100000] life_init) =
     [(0, FetchScreenpipeData), (30000, FetchScreenpipeData), (60000, FetchScreenpipeData),
      (90000, FetchScreenpipeData)]"
    by (simp add: life_init_def effect_run_def setInterval_def advance_def effect_cleanup_def
        clearInterval_def firings_def initializeScreenpipe_begin_def upt_rec)
  have mounted: "cleanup (snd (life_run [Mount, Elapse 95000] life_init)) = Some 0"
    and now: "clock (rt (snd (life_run [Mount, Elapse 95000] life_init))) = 95000"
    by (simp_all add: life_init_def effect_run_def setInterval_def advance_def
        firings_def initializeScreenpipe_begin_def upt_rec split_beta)
  have three: "[0..<sum_list [40000, 55000] div 30000] = [0, 1, 2::nat]"
    by (simp add: upt_rec)
  from interval_lifecycle [of "[Mount, Elapse 95000]" "[40000, 55000]"]
  show ?thesis unfolding Let_def mounted now three using run by simp
qed


section \<open>Properties of the progress counter\<close>

lemma progress_steps_sorted:
  "verificationProgress h \<le> 100 \<Longrightarrow>
     sorted (verificationProgress h # fst (progress_steps ds h)) \<and>
     verificationProgress (snd (progress_steps ds h)) =
       last (verificationProgress h # fst (progress_steps ds h)) \<and>
     verificationProgress (snd (progress_steps ds h)) \<le> 100"
proof (induction ds arbitrary: h)
  case Nil
  then show ?case by simp
next
  case (Cons d ds)
  let ?h1 = "verifyAchievement_advance d h"
  have le: "verificationProgress h \<le> verificationProgress ?h1"
    and b: "verificationProgress ?h1 \<le> 100"
    using Cons.prems by (simp_all add: verifyAchievement_advance_def)
  from Cons.IH [OF b]
  have srt: "sorted (verificationProgress ?h1 # fst (progress_steps ds ?h1))"
    and lst: "verificationProgress (snd (progress_steps ds ?h1)) =
       last (verificationProgress ?h1 # fst (progress_steps ds ?h1))"
    and bnd: "verificationProgress (snd (progress_steps ds ?h1)) \<le> 100"
    by simp_all
  from srt le
  have "sorted (verificationProgress h # verificationProgress ?h1 # fst (progress_steps ds ?h1))"
    by auto
  with lst bnd show ?case by (simp add: split_beta Let_def)
qed

text \<open>
  C6, on the hook as the specification describes it. Over one verify call the values of
  the progress counter, in the order in which they are taken, never decrease; they start
  at 0; on success the last value, reached when the promise settles, is 100; and right
  after \<open>resetVerificationState\<close> the counter is 0.
\<close>

theorem progress_monotone:
  "sorted (fst (verifyAchievement_progress ds outcome h)) \<and>
   hd (fst (verifyAchievement_progress ds outcome h)) = 0 \<and>
   (outcome = Resolves True \<longrightarrow>
      last (fst (verifyAchievement_progress ds outcome h)) = 100 \<and>
      verificationProgress (snd (verifyAchievement_progress ds outcome h)) = 100) \<and>
   verificationProgress (resetVerificationState h) = 0"
proof -
  let ?h0 = "verifyAchievement_begin h"
  let ?ps = "fst (progress_steps ds ?h0)"
  let ?h1 = "snd (progress_steps ds ?h0)"
  let ?h2 = "verifyAchievement_end outcome ?h1"
  have z: "verificationProgress ?h0 = 0" by (simp add: verifyAchievement_begin_def)
  then have "verificationProgress ?h0 \<le> 100" by simp
  from progress_steps_sorted [OF this, of ds]
  have srt: "sorted (verificationProgress ?h0 # ?ps)"
    and lst: "verificationProgress ?h1 = last (verificationProgress ?h0 # ?ps)"
    and bnd: "verificationProgress ?h1 \<le> 100" by simp_all
  have fin: "verificationProgress ?h2 = verificationProgress ?h1 \<or>
             verificationProgress ?h2 = 100"
    by (auto simp: verifyAchievement_end_def split: verify_outcome.splits)
  have all: "\<forall>p \<in> set (verificationProgress ?h0 # ?ps). p \<le> verificationProgress ?h1"
  proof -
    have "\<forall>p \<in> set xs. p \<le> last xs" if "sorted xs" for xs :: "nat list"
      using that by (induction xs) auto
    from this [OF srt] lst show ?thesis by simp
  qed
  from fin bnd have ge: "verificationProgress ?h1 \<le> verificationProgress ?h2" by auto
  have eq: "fst (verifyAchievement_progress ds outcome h) =
            (verificationProgress ?h0 # ?ps) @ [verificationProgress ?h2]"
    and eq2: "snd (verifyAchievement_progress ds outcome h) = ?h2"
    by (simp_all add: verifyAchievement_progress_def Let_def split_beta)
  have s: "sorted ((verificationProgress ?h0 # ?ps) @ [verificationProgress ?h2])"
    unfolding sorted_append using srt all ge by fastforce
  have t: "outcome = Resolves True \<Longrightarrow> verificationProgress ?h2 = 100"
    by (simp add: verifyAchievement_end_def)
  show ?thesis
    using s t z unfolding eq eq2
    by (simp add: resetVerificationState_def)
qed

theorem progress_monotone_witness:
  "fst (verifyAchievement_progress [30, 40, 50] (Resolves True) idle_hook) =
     [0, 30, 70, 100, 100] \<and>
   sorted (fst (verifyAchievement_progress [30, 40, 50] (Resolves True) idle_hook)) \<and>
   last (fst (verifyAchievement_progress [30, 40, 50] (Resolves True) idle_hook)) = 100 \<and>
   verificationProgress (resetVerificationState idle_hook) = 0"
proof -
  have "fst (verifyAchievement_progress [30, 40, 50] (Resolves True) idle_hook) =
          [0, 30, 70, 100, 100]"
    by (simp add: verifyAchievement_progress_def verifyAchievement_begin_def
        verifyAchievement_advance_def verifyAchievement_end_def idle_hook_def)
  with progress_monotone [of "[30, 40, 50]" "Resolves True" idle_hook]
  show ?thesis by blast
qed

end
